theory Spec2Isabelle
  imports Main
begin

section \<open>The object graph of pedigree_profiler.py\<close>

text \<open>
  Python objects have identity and are shared: an \<open>Individual\<close> is reached from its
  parents' \<open>children\<close> lists, from its children's \<open>mother\<close>/\<open>father\<close> attributes and
  from the pedigree's collection. An object is therefore named by a reference, and the
  objects live in a store that maps every reference to the attributes of its object.
  Following a reference never fails in Python, so the store is a total function; an
  absent parent is Python's \<open>None\<close>, modelled by \<open>option\<close>.

  The attribute \<open>id\<close> is called \<open>ident\<close> here (\<open>id\<close> is the identity function of HOL).
  \<open>sex\<close> is the Python string as it is ('M', 'F' or anything else), \<open>affected\<close> the
  documented bool. Each individual owns its \<open>children\<close> list: the constructor's
  default is a new list for each object, and a list handed to the constructor is taken
  over as the object's own.
\<close>

type_synonym ref = nat

record Individual =
  ident :: string
  sex :: string
  affected :: bool
  mother :: "ref option"
  father :: "ref option"
  children :: "ref list"

type_synonym heap = "ref \<Rightarrow> Individual"

text \<open>
  \<open>Individual.__init__\<close>: every argument is stored as given; \<open>children\<close> defaults to
  a new empty list.
\<close>

definition Individual_init ::
  "string \<Rightarrow> string \<Rightarrow> bool \<Rightarrow> ref option \<Rightarrow> ref option \<Rightarrow> ref list option \<Rightarrow> Individual" where
  "Individual_init id_number sx aff mo fa chn =
     \<lparr>ident = id_number, sex = sx, affected = aff, mother = mo, father = fa,
      children = (case chn of None \<Rightarrow> [] | Some cs \<Rightarrow> cs)\<rparr>"

text \<open>
  \<open>add_parent_child_relationship(self, parent, sex)\<close>. The two assignments happen one
  after the other on the store, so the case \<open>self = parent\<close> is as in Python. Any tag
  other than 'M' and 'F' falls through both branches.
\<close>

definition add_parent_child_relationship :: "heap \<Rightarrow> ref \<Rightarrow> ref \<Rightarrow> string \<Rightarrow> heap" where
  "add_parent_child_relationship h self parent sx =
     (if sx = ''M'' then
        (let h1 = h(self := (h self)\<lparr>father := Some parent\<rparr>)
         in h1(parent := (h1 parent)\<lparr>children := children (h1 parent) @ [self]\<rparr>))
      else if sx = ''F'' then
        (let h1 = h(self := (h self)\<lparr>mother := Some parent\<rparr>)
         in h1(parent := (h1 parent)\<lparr>children := children (h1 parent) @ [self]\<rparr>))
      else h)"

section \<open>The carrier heuristic\<close>

text \<open>
  Reading an attribute of \<open>None\<close> raises \<open>AttributeError\<close>; it is the only exception
  the modelled code can raise.
\<close>

datatype error = AttributeError

text \<open>
  \<open>any(child.affected and not child.father.affected for child in self.children)\<close>:
  the children are visited in order, \<open>and\<close> evaluates \<open>child.father.affected\<close> only for
  an affected child, and \<open>any\<close> stops at the first true element.
\<close>

fun any_affected_child_unaffected_father :: "heap \<Rightarrow> ref list \<Rightarrow> error + bool" where
  "any_affected_child_unaffected_father h [] = Inr False"
| "any_affected_child_unaffected_father h (c # cs) =
     (if affected (h c) then
        (case father (h c) of
           None \<Rightarrow> Inl AttributeError
         | Some f \<Rightarrow> if \<not> affected (h f) then Inr True
                     else any_affected_child_unaffected_father h cs)
      else any_affected_child_unaffected_father h cs)"

fun any_affected_child_unaffected_mother :: "heap \<Rightarrow> ref list \<Rightarrow> error + bool" where
  "any_affected_child_unaffected_mother h [] = Inr False"
| "any_affected_child_unaffected_mother h (c # cs) =
     (if affected (h c) then
        (case mother (h c) of
           None \<Rightarrow> Inl AttributeError
         | Some m \<Rightarrow> if \<not> affected (h m) then Inr True
                     else any_affected_child_unaffected_mother h cs)
      else any_affected_child_unaffected_mother h cs)"

text \<open>
  \<open>any(sibling.affected for sibling in self.mother.children + self.father.children
  if sibling != self)\<close>; \<open>!=\<close> on objects without \<open>__eq__\<close> compares identity.
\<close>

definition any_affected_sibling :: "heap \<Rightarrow> ref \<Rightarrow> ref \<Rightarrow> ref \<Rightarrow> bool" where
  "any_affected_sibling h self m f =
     list_ex (\<lambda>sibling. affected (h sibling))
       (filter (\<lambda>sibling. sibling \<noteq> self) (children (h m) @ children (h f)))"

text \<open>
  \<open>is_carrier\<close> returns \<open>True\<close>, \<open>False\<close> or \<open>None\<close> (indeterminate): \<open>bool option\<close>.
\<close>

definition is_carrier :: "heap \<Rightarrow> ref \<Rightarrow> error + bool option" where
  "is_carrier h self =
     (case (mother (h self), father (h self)) of
        (None, _) \<Rightarrow> Inr None
      | (_, None) \<Rightarrow> Inr None
      | (Some m, Some f) \<Rightarrow>
          if children (h self) = [] then Inr None
          else
            (case (if sex (h self) = ''F'' \<and> \<not> affected (h self)
                   then any_affected_child_unaffected_father h (children (h self))
                   else Inr False) of
               Inl e \<Rightarrow> Inl e
             | Inr True \<Rightarrow> Inr (Some True)
             | Inr False \<Rightarrow>
                 (case (if sex (h self) = ''M'' \<and> \<not> affected (h self)
                        then any_affected_child_unaffected_mother h (children (h self))
                        else Inr False) of
                    Inl e \<Rightarrow> Inl e
                  | Inr True \<Rightarrow> Inr (Some True)
                  | Inr False \<Rightarrow>
                      if \<not> affected (h self) \<and> \<not> affected (h m) \<and> \<not> affected (h f)
                         \<and> any_affected_sibling h self m f
                      then Inr (Some True)
                      else Inr (Some False))))"

section \<open>The pedigree and the elimination of modes\<close>

record Pedigree =
  individuals :: "ref list"

definition find_affected :: "heap \<Rightarrow> Pedigree \<Rightarrow> ref list" where
  "find_affected h p = filter (\<lambda>individual. affected (h individual)) (individuals p)"

definition find_unaffected :: "heap \<Rightarrow> Pedigree \<Rightarrow> ref list" where
  "find_unaffected h p = filter (\<lambda>individual. \<not> affected (h individual)) (individuals p)"

definition initial_modes :: "string set" where
  "initial_modes =
     {''Autosomal Dominant'', ''Autosomal Recessive'', ''X-Linked Dominant'', ''X-Linked Recessive''}"

text \<open>\<open>set.discard\<close> removes an element if it is there.\<close>

definition discard :: "string \<Rightarrow> string set \<Rightarrow> string set" where
  "discard x S = S - {x}"

text \<open>
  \<open>not parent.affected and not parent.is_carrier()\<close>: \<open>is_carrier\<close> is called only for
  an unaffected parent; \<open>not\<close> of \<open>None\<close> and of \<open>False\<close> is \<open>True\<close>.
\<close>

definition unaffected_and_not_carrier :: "heap \<Rightarrow> ref \<Rightarrow> error + bool" where
  "unaffected_and_not_carrier h parent =
     (if \<not> affected (h parent) then
        (case is_carrier h parent of
           Inl e \<Rightarrow> Inl e
         | Inr c \<Rightarrow> Inr (c \<noteq> Some True))
      else Inr False)"

text \<open>
  \<open>(not father.affected and not father.is_carrier()) or
  (not mother.affected and not mother.is_carrier())\<close>: the mother is looked at only
  when the father's part is false.
\<close>

definition rules_out_recessive :: "heap \<Rightarrow> ref \<Rightarrow> ref \<Rightarrow> error + bool" where
  "rules_out_recessive h f m =
     (case unaffected_and_not_carrier h f of
        Inl e \<Rightarrow> Inl e
      | Inr True \<Rightarrow> Inr True
      | Inr False \<Rightarrow> unaffected_and_not_carrier h m)"

text \<open>
  \<open>individual.sex == "M" and not (mother.affected or mother.is_carrier())\<close>.
\<close>

definition rules_out_x_recessive :: "heap \<Rightarrow> ref \<Rightarrow> ref \<Rightarrow> error + bool" where
  "rules_out_x_recessive h individual m =
     (if sex (h individual) = ''M'' then
        (if affected (h m) then Inr False
         else (case is_carrier h m of
                 Inl e \<Rightarrow> Inl e
               | Inr c \<Rightarrow> Inr (c \<noteq> Some True)))
      else Inr False)"

text \<open>The body of the loop for one affected individual.\<close>

definition eliminate :: "heap \<Rightarrow> ref \<Rightarrow> string set \<Rightarrow> error + string set" where
  "eliminate h individual possible_modes =
     (case (father (h individual), mother (h individual)) of
        (Some f, Some m) \<Rightarrow>
          (let pm1 = (if \<not> affected (h f) \<and> \<not> affected (h m)
                      then discard ''X-Linked Dominant'' (discard ''Autosomal Dominant'' possible_modes)
                      else possible_modes)
           in case rules_out_recessive h f m of
                Inl e \<Rightarrow> Inl e
              | Inr r \<Rightarrow>
                  (let pm2 = (if r then discard ''Autosomal Recessive'' pm1 else pm1)
                   in case rules_out_x_recessive h individual m of
                        Inl e \<Rightarrow> Inl e
                      | Inr x \<Rightarrow> Inr (if x then discard ''X-Linked Recessive'' pm2 else pm2)))
      | _ \<Rightarrow> Inr possible_modes)"

fun eliminate_all :: "heap \<Rightarrow> ref list \<Rightarrow> string set \<Rightarrow> error + string set" where
  "eliminate_all h [] possible_modes = Inr possible_modes"
| "eliminate_all h (individual # rest) possible_modes =
     (case eliminate h individual possible_modes of
        Inl e \<Rightarrow> Inl e
      | Inr pm \<Rightarrow> eliminate_all h rest pm)"

text \<open>The candidate set after the loop.\<close>

definition candidate_modes :: "heap \<Rightarrow> Pedigree \<Rightarrow> error + string set" where
  "candidate_modes h p = eliminate_all h (find_affected h p) initial_modes"

text \<open>
  The method returns a string when one mode is left (\<open>pop\<close> of a one-element set gives
  its element) and the set otherwise.
\<close>

datatype result = Mode string | Modes "string set"

definition return_modes :: "string set \<Rightarrow> result" where
  "return_modes possible_modes =
     (if card possible_modes = 1 then Mode (the_elem possible_modes) else Modes possible_modes)"

definition find_mode_of_inheritance :: "heap \<Rightarrow> Pedigree \<Rightarrow> error + result" where
  "find_mode_of_inheritance h p =
     (case candidate_modes h p of
        Inl e \<Rightarrow> Inl e
      | Inr possible_modes \<Rightarrow> Inr (return_modes possible_modes))"

section \<open>The invariant of the parent and child links\<close>

text \<open>
  Every individual with a recorded mother occurs in her \<open>children\<close> list, and the same
  for the father.
\<close>

definition parent_child_inv :: "heap \<Rightarrow> bool" where
  "parent_child_inv h \<longleftrightarrow>
     (\<forall>x p. (mother (h x) = Some p \<longrightarrow> x \<in> set (children (h p)))
          \<and> (father (h x) = Some p \<longrightarrow> x \<in> set (children (h p))))"

text \<open>
  The store before any object exists holds a placeholder without parents everywhere.
  A new object is one that no object names as a parent.
\<close>

definition empty_heap :: heap where
  "empty_heap = (\<lambda>_. Individual_init [] [] False None None None)"

definition unreferenced :: "heap \<Rightarrow> ref \<Rightarrow> bool" where
  "unreferenced h r \<longleftrightarrow> (\<forall>x. mother (h x) \<noteq> Some r \<and> father (h x) \<noteq> Some r)"

text \<open>
  The object graphs built by constructing individuals without the \<open>mother\<close> and
  \<open>father\<close> arguments and linking them with \<open>add_parent_child_relationship\<close>, as all
  four examples of the script do.
\<close>

inductive built :: "heap \<Rightarrow> bool" where
  built_empty: "built empty_heap"
| built_new: "built h \<Longrightarrow> unreferenced h r \<Longrightarrow>
     built (h(r := Individual_init id_number sx aff None None chn))"
| built_link: "built h \<Longrightarrow> built (add_parent_child_relationship h self parent sx)"

section \<open>The three discards, as the specification words them\<close>

text \<open>
  The discards one affected individual contributes, read off the specification: the
  carrier status of a parent is what \<open>is_carrier\<close> returns for it.
\<close>

definition spec_discards :: "heap \<Rightarrow> ref \<Rightarrow> string set" where
  "spec_discards h i =
     (case (mother (h i), father (h i)) of
        (Some m, Some f) \<Rightarrow>
            (if \<not> affected (h f) \<and> \<not> affected (h m)
             then {''Autosomal Dominant'', ''X-Linked Dominant''} else {})
          \<union> (if (\<not> affected (h f) \<and> is_carrier h f \<noteq> Inr (Some True))
                 \<or> (\<not> affected (h m) \<and> is_carrier h m \<noteq> Inr (Some True))
              then {''Autosomal Recessive''} else {})
          \<union> (if sex (h i) = ''M'' \<and> \<not> affected (h m) \<and> is_carrier h m \<noteq> Inr (Some True)
              then {''X-Linked Recessive''} else {})
      | _ \<Rightarrow> {})"

definition spec_candidate_modes :: "heap \<Rightarrow> Pedigree \<Rightarrow> string set" where
  "spec_candidate_modes h p =
     initial_modes -
       (\<Union>i \<in> set (filter (\<lambda>i. affected (h i)) (individuals p)). spec_discards h i)"

text \<open>The \<open>is_carrier\<close> calls of the loop return for every affected individual of the pedigree.\<close>

definition carrier_calls_return :: "heap \<Rightarrow> Pedigree \<Rightarrow> bool" where
  "carrier_calls_return h p \<longleftrightarrow>
     (\<forall>i \<in> set (individuals p). \<forall>m f.
        affected (h i) \<longrightarrow> mother (h i) = Some m \<longrightarrow> father (h i) = Some f \<longrightarrow>
          (\<not> affected (h f) \<longrightarrow> is_carrier h f \<noteq> Inl AttributeError)
        \<and> (\<not> affected (h m) \<longrightarrow> is_carrier h m \<noteq> Inl AttributeError))"

section \<open>The example pedigrees\<close>

fun add_relationships :: "heap \<Rightarrow> (ref \<times> ref \<times> string) list \<Rightarrow> heap" where
  "add_relationships h [] = h"
| "add_relationships h ((child, parent, sx) # rest) =
     add_relationships (add_parent_child_relationship h child parent sx) rest"

text \<open>
  Test pedigree 9 of the script: \<open>I1\<close> ... \<open>I12\<close> are the references 1 ... 12, created
  first and linked by the fifteen calls in the script's order.
\<close>

definition pedigree9_objects :: heap where
  "pedigree9_objects = empty_heap
     (1 := Individual_init ''I1'' ''M'' False None None None,
      2 := Individual_init ''I2'' ''F'' False None None None,
      3 := Individual_init ''I3'' ''F'' False None None None,
      4 := Individual_init ''I4'' ''M'' False None None None,
      5 := Individual_init ''I5'' ''F'' True None None None,
      6 := Individual_init ''I6'' ''M'' False None None None,
      7 := Individual_init ''I7'' ''F'' False None None None,
      8 := Individual_init ''I8'' ''M'' True None None None,
      9 := Individual_init ''I9'' ''F'' False None None None,
      10 := Individual_init ''I10'' ''M'' False None None None,
      11 := Individual_init ''I11'' ''F'' True None None None,
      12 := Individual_init ''I12'' ''M'' False None None None)"

definition pedigree9_heap :: heap where
  "pedigree9_heap = add_relationships pedigree9_objects
     [(3, 1, ''M''), (3, 2, ''F''), (4, 1, ''M''), (4, 2, ''F''),
      (5, 3, ''F''), (5, 4, ''M''), (6, 3, ''F''), (6, 4, ''M''),
      (7, 3, ''F''), (7, 4, ''M''), (8, 5, ''F''), (9, 5, ''F''),
      (10, 5, ''F''), (11, 6, ''M''), (12, 7, ''F'')]"

definition pedigree9 :: Pedigree where
  "pedigree9 = \<lparr>individuals = [1, 2, 3, 4, 5, 6, 7, 8, 9, 10, 11, 12]\<rparr>"

text \<open>
  A family of six: the woman 3 has recorded parents 1 and 2 and two affected sons, first
  4, whose father is not recorded, then 6, whose father is the unaffected man 5.
\<close>

definition half_recorded_objects :: heap where
  "half_recorded_objects = empty_heap
     (1 := Individual_init ''G1'' ''M'' False None None None,
      2 := Individual_init ''G2'' ''F'' False None None None,
      3 := Individual_init ''X'' ''F'' False None None None,
      4 := Individual_init ''Y'' ''M'' True None None None,
      5 := Individual_init ''W'' ''M'' False None None None,
      6 := Individual_init ''Z'' ''M'' True None None None)"

definition half_recorded_heap :: heap where
  "half_recorded_heap = add_relationships half_recorded_objects
     [(3, 1, ''M''), (3, 2, ''F''), (4, 3, ''F''), (6, 3, ''F''), (6, 5, ''M'')]"

definition half_recorded_pedigree :: Pedigree where
  "half_recorded_pedigree = \<lparr>individuals = [1, 2, 3, 4, 5, 6]\<rparr>"

text \<open>A line of three women: 2 has the recorded mother 1, no recorded father, and the child 3.\<close>

definition maternal_line_heap :: heap where
  "maternal_line_heap = add_relationships
     (empty_heap
       (1 := Individual_init ''A'' ''F'' False None None None,
        2 := Individual_init ''B'' ''F'' False None None None,
        3 := Individual_init ''C'' ''F'' True None None None))
     [(2, 1, ''F''), (3, 2, ''F'')]"

text \<open>A mother 1 and a son 2 whose constructor is given the mother: \<open>Individual("X", "M", True, mother=P)\<close>.\<close>

definition constructor_link_heap :: heap where
  "constructor_link_heap = empty_heap
     (1 := Individual_init ''P'' ''F'' False None None None,
      2 := Individual_init ''X'' ''M'' True (Some 1) None None)"

text \<open>Two unlinked objects, a mother 1 and a son 2, both constructed with the defaults.\<close>

definition two_objects :: heap where
  "two_objects = empty_heap
     (1 := Individual_init ''P'' ''F'' False None None None,
      2 := Individual_init ''X'' ''M'' True None None None)"

section \<open>The examples, evaluated\<close>

lemmas build_defs = empty_heap_def Individual_init_def add_parent_child_relationship_def Let_def

lemmas mode_defs = find_mode_of_inheritance_def candidate_modes_def find_affected_def
  eliminate_def rules_out_recessive_def rules_out_x_recessive_def unaffected_and_not_carrier_def
  is_carrier_def any_affected_sibling_def initial_modes_def discard_def return_modes_def
  insert_Diff_if

text \<open>The objects of test pedigree 9 after the fifteen calls.\<close>

lemma pedigree9_heap_values:
  "pedigree9_heap (Suc 0) = \<lparr>ident = ''I1'', sex = ''M'', affected = False, mother = None, father = None, children = [3, 4]\<rparr>"
  "pedigree9_heap 2 = \<lparr>ident = ''I2'', sex = ''F'', affected = False, mother = None, father = None, children = [3, 4]\<rparr>"
  "pedigree9_heap 3 = \<lparr>ident = ''I3'', sex = ''F'', affected = False, mother = Some 2, father = Some 1, children = [5, 6, 7]\<rparr>"
  "pedigree9_heap 4 = \<lparr>ident = ''I4'', sex = ''M'', affected = False, mother = Some 2, father = Some 1, children = [5, 6, 7]\<rparr>"
  "pedigree9_heap 5 = \<lparr>ident = ''I5'', sex = ''F'', affected = True, mother = Some 3, father = Some 4, children = [8, 9, 10]\<rparr>"
  "pedigree9_heap 6 = \<lparr>ident = ''I6'', sex = ''M'', affected = False, mother = Some 3, father = Some 4, children = [11]\<rparr>"
  "pedigree9_heap 7 = \<lparr>ident = ''I7'', sex = ''F'', affected = False, mother = Some 3, father = Some 4, children = [12]\<rparr>"
  "pedigree9_heap 8 = \<lparr>ident = ''I8'', sex = ''M'', affected = True, mother = Some 5, father = None, children = []\<rparr>"
  "pedigree9_heap 9 = \<lparr>ident = ''I9'', sex = ''F'', affected = False, mother = Some 5, father = None, children = []\<rparr>"
  "pedigree9_heap 10 = \<lparr>ident = ''I10'', sex = ''M'', affected = False, mother = Some 5, father = None, children = []\<rparr>"
  "pedigree9_heap 11 = \<lparr>ident = ''I11'', sex = ''F'', affected = True, mother = None, father = Some 6, children = []\<rparr>"
  "pedigree9_heap 12 = \<lparr>ident = ''I12'', sex = ''M'', affected = False, mother = Some 7, father = None, children = []\<rparr>"
  by (simp_all add: pedigree9_heap_def pedigree9_objects_def build_defs)

lemma half_recorded_heap_values:
  "half_recorded_heap (Suc 0) = \<lparr>ident = ''G1'', sex = ''M'', affected = False, mother = None, father = None, children = [3]\<rparr>"
  "half_recorded_heap 2 = \<lparr>ident = ''G2'', sex = ''F'', affected = False, mother = None, father = None, children = [3]\<rparr>"
  "half_recorded_heap 3 = \<lparr>ident = ''X'', sex = ''F'', affected = False, mother = Some 2, father = Some 1, children = [4, 6]\<rparr>"
  "half_recorded_heap 4 = \<lparr>ident = ''Y'', sex = ''M'', affected = True, mother = Some 3, father = None, children = []\<rparr>"
  "half_recorded_heap 5 = \<lparr>ident = ''W'', sex = ''M'', affected = False, mother = None, father = None, children = [6]\<rparr>"
  "half_recorded_heap 6 = \<lparr>ident = ''Z'', sex = ''M'', affected = True, mother = Some 3, father = Some 5, children = []\<rparr>"
  by (simp_all add: half_recorded_heap_def half_recorded_objects_def build_defs)

lemma maternal_line_heap_values:
  "maternal_line_heap (Suc 0) = \<lparr>ident = ''A'', sex = ''F'', affected = False, mother = None, father = None, children = [2]\<rparr>"
  "maternal_line_heap 2 = \<lparr>ident = ''B'', sex = ''F'', affected = False, mother = Some 1, father = None, children = [3]\<rparr>"
  "maternal_line_heap 3 = \<lparr>ident = ''C'', sex = ''F'', affected = True, mother = Some 2, father = None, children = []\<rparr>"
  by (simp_all add: maternal_line_heap_def build_defs)

text \<open>
  C2. On test pedigree 9 the only affected individual with both parents recorded is the
  woman \<open>I5\<close>; her parents are unaffected and both come out as carriers, so the two
  dominant modes are discarded and nothing else: the method returns the set of the two
  recessive modes, not the string 'Autosomal Recessive' that the script's comment and
  the specification announce.
\<close>

theorem pedigree9_find_mode_of_inheritance:
  "find_mode_of_inheritance pedigree9_heap pedigree9 =
     Inr (Modes {''Autosomal Recessive'', ''X-Linked Recessive''})"
  by (simp add: mode_defs pedigree9_def pedigree9_heap_values)

text \<open>
  C3. \<open>I6\<close> of test pedigree 9 has both parents recorded and one child. He is unaffected,
  his parents are unaffected and his sister \<open>I5\<close> is affected, which is the third
  condition; yet \<open>is_carrier\<close> does not return \<open>True\<close>: the second condition reads the
  mother of his affected child \<open>I11\<close>, who has none, and raises.
\<close>

theorem pedigree9_is_carrier_I6:
  "mother (pedigree9_heap 6) = Some 3 \<and> father (pedigree9_heap 6) = Some 4
   \<and> children (pedigree9_heap 6) = [11]
   \<and> \<not> affected (pedigree9_heap 6) \<and> \<not> affected (pedigree9_heap 3) \<and> \<not> affected (pedigree9_heap 4)
   \<and> any_affected_sibling pedigree9_heap 6 3 4
   \<and> is_carrier pedigree9_heap 6 = Inl AttributeError"
  by (simp add: is_carrier_def any_affected_sibling_def pedigree9_heap_values)

text \<open>
  C4. In the family of six the woman 3 has both parents recorded and an affected son
  whose father is not recorded: \<open>is_carrier\<close> raises \<open>AttributeError\<close> instead of
  returning \<open>True\<close>, \<open>False\<close> or \<open>None\<close>.
\<close>

theorem half_recorded_is_carrier_raises:
  "is_carrier half_recorded_heap 3 = Inl AttributeError"
  by (simp add: is_carrier_def any_affected_sibling_def half_recorded_heap_values)

text \<open>
  C5. On the same family \<open>find_mode_of_inheritance\<close> fails: the affected son 6 has both
  parents recorded, he is male and his mother 3 is unaffected, so her carrier status is
  asked for, and that call raises.
\<close>

theorem half_recorded_find_mode_raises:
  "find_mode_of_inheritance half_recorded_heap half_recorded_pedigree = Inl AttributeError"
  by (simp add: mode_defs half_recorded_pedigree_def half_recorded_heap_values)

text \<open>
  C1. In the family of six the son 6 is affected and male and has both parents recorded,
  the unaffected 3 and 5, so all three discards are to be decided for him. The father's
  carrier status is indeterminate; the loop body then asks for the mother's, the call
  raises, and the loop ends with no candidate set at all: the discards are not applied.
\<close>

theorem half_recorded_discards_not_applied:
  "find_affected half_recorded_heap half_recorded_pedigree = [4, 6]
   \<and> father (half_recorded_heap 4) = None
   \<and> mother (half_recorded_heap 6) = Some 3 \<and> father (half_recorded_heap 6) = Some 5
   \<and> sex (half_recorded_heap 6) = ''M''
   \<and> \<not> affected (half_recorded_heap 3) \<and> \<not> affected (half_recorded_heap 5)
   \<and> is_carrier half_recorded_heap 5 = Inr None
   \<and> eliminate half_recorded_heap 6 initial_modes = Inl AttributeError
   \<and> candidate_modes half_recorded_heap half_recorded_pedigree = Inl AttributeError"
  by (simp add: mode_defs half_recorded_pedigree_def half_recorded_heap_values)

section \<open>What is_carrier returns\<close>

lemma error_is_AttributeError: "(e::error) = AttributeError"
  by (cases e)

lemma any_affected_child_unaffected_father_Inr:
  "any_affected_child_unaffected_father h cs = Inr b \<Longrightarrow>
     b = (\<exists>c \<in> set cs. affected (h c) \<and> (\<exists>f. father (h c) = Some f \<and> \<not> affected (h f)))"
  by (induction cs) (auto split: if_splits option.splits)

lemma any_affected_child_unaffected_mother_Inr:
  "any_affected_child_unaffected_mother h cs = Inr b \<Longrightarrow>
     b = (\<exists>c \<in> set cs. affected (h c) \<and> (\<exists>m. mother (h c) = Some m \<and> \<not> affected (h m)))"
  by (induction cs) (auto split: if_splits option.splits)

text \<open>
  Whenever \<open>is_carrier\<close> returns for an individual with both parents and a child, the
  value is the disjunction of the three conditions.
\<close>

lemma is_carrier_returns_three_conditions:
  assumes "mother (h self) = Some m" and "father (h self) = Some f"
    and "children (h self) \<noteq> []" and "is_carrier h self = Inr r"
  shows "r = Some (
       (sex (h self) = ''F'' \<and> \<not> affected (h self)
          \<and> (\<exists>c \<in> set (children (h self)). affected (h c)
                \<and> (\<exists>cf. father (h c) = Some cf \<and> \<not> affected (h cf))))
     \<or> (sex (h self) = ''M'' \<and> \<not> affected (h self)
          \<and> (\<exists>c \<in> set (children (h self)). affected (h c)
                \<and> (\<exists>cm. mother (h c) = Some cm \<and> \<not> affected (h cm))))
     \<or> (\<not> affected (h self) \<and> \<not> affected (h m) \<and> \<not> affected (h f)
          \<and> (\<exists>s \<in> set (children (h m) @ children (h f)). s \<noteq> self \<and> affected (h s))))"
  using assms
  by (auto simp: is_carrier_def any_affected_sibling_def list_ex_iff
           split: if_splits sum.splits bool.splits
           dest!: any_affected_child_unaffected_father_Inr any_affected_child_unaffected_mother_Inr)

text \<open>It returns when every affected child has both parents recorded.\<close>

lemma any_affected_child_unaffected_father_returns:
  "\<forall>c \<in> set cs. affected (h c) \<longrightarrow> father (h c) \<noteq> None \<Longrightarrow>
     \<exists>b. any_affected_child_unaffected_father h cs = Inr b"
  by (induction cs) auto

lemma any_affected_child_unaffected_mother_returns:
  "\<forall>c \<in> set cs. affected (h c) \<longrightarrow> mother (h c) \<noteq> None \<Longrightarrow>
     \<exists>b. any_affected_child_unaffected_mother h cs = Inr b"
  by (induction cs) auto

lemma is_carrier_returns:
  assumes "\<forall>c \<in> set (children (h self)). affected (h c) \<longrightarrow>
             father (h c) \<noteq> None \<and> mother (h c) \<noteq> None"
  shows "\<exists>r. is_carrier h self = Inr r"
proof -
  from assms obtain bf where bf:
    "any_affected_child_unaffected_father h (children (h self)) = Inr bf"
    using any_affected_child_unaffected_father_returns [of "children (h self)" h] by auto
  from assms obtain bm where bm:
    "any_affected_child_unaffected_mother h (children (h self)) = Inr bm"
    using any_affected_child_unaffected_mother_returns [of "children (h self)" h] by auto
  from bf bm show ?thesis
    by (auto simp: is_carrier_def split: option.splits bool.splits)
qed

text \<open>
  C8 fails as stated: the woman 2 of the maternal line has a recorded mother and a child,
  and her carrier status is indeterminate because her father is not recorded.
\<close>

theorem maternal_line_is_carrier_indeterminate:
  "is_carrier maternal_line_heap 2 = Inr None
   \<and> \<not> ((mother (maternal_line_heap 2) = None \<and> father (maternal_line_heap 2) = None)
        \<or> children (maternal_line_heap 2) = [])"
  by (simp add: is_carrier_def maternal_line_heap_values)

text \<open>
  C8, amended. \<open>is_carrier\<close> returns the indeterminate value exactly when the mother is
  not recorded, or the father is not recorded, or there are no children.
\<close>

theorem is_carrier_indeterminate_iff:
  "is_carrier h self = Inr None \<longleftrightarrow>
     mother (h self) = None \<or> father (h self) = None \<or> children (h self) = []"
  by (auto simp: is_carrier_def split: option.splits sum.splits bool.splits)

theorem is_carrier_indeterminate_iff_witness:
  "(is_carrier pedigree9_heap 8 = Inr None) \<and> children (pedigree9_heap 8) = []
   \<and> (is_carrier pedigree9_heap 3 \<noteq> Inr None) \<and> mother (pedigree9_heap 3) \<noteq> None
   \<and> father (pedigree9_heap 3) \<noteq> None \<and> children (pedigree9_heap 3) \<noteq> []"
  using is_carrier_indeterminate_iff [of pedigree9_heap 8]
    is_carrier_indeterminate_iff [of pedigree9_heap 3]
  by (simp add: pedigree9_heap_values)

section \<open>The elimination loop\<close>

lemma unaffected_and_not_carrier_Inr:
  "unaffected_and_not_carrier h p = Inr b \<Longrightarrow>
     b = (\<not> affected (h p) \<and> is_carrier h p \<noteq> Inr (Some True))"
  by (auto simp: unaffected_and_not_carrier_def split: if_splits sum.splits)

lemma rules_out_recessive_Inr:
  "rules_out_recessive h f m = Inr b \<Longrightarrow>
     b = ((\<not> affected (h f) \<and> is_carrier h f \<noteq> Inr (Some True))
        \<or> (\<not> affected (h m) \<and> is_carrier h m \<noteq> Inr (Some True)))"
  by (auto simp: rules_out_recessive_def split: sum.splits bool.splits
           dest!: unaffected_and_not_carrier_Inr)

lemma rules_out_x_recessive_Inr:
  "rules_out_x_recessive h i m = Inr b \<Longrightarrow>
     b = (sex (h i) = ''M'' \<and> \<not> affected (h m) \<and> is_carrier h m \<noteq> Inr (Some True))"
  by (auto simp: rules_out_x_recessive_def split: if_splits sum.splits)

text \<open>One pass of the loop body removes the specified discards, whatever the set was.\<close>

lemma eliminate_Inr:
  "eliminate h i pm = Inr pm' \<Longrightarrow> pm' = pm - spec_discards h i"
  by (auto simp: eliminate_def spec_discards_def discard_def Let_def
           split: option.splits sum.splits if_splits
           dest!: rules_out_recessive_Inr rules_out_x_recessive_Inr)

text \<open>Whether the body raises does not depend on the candidate set.\<close>

lemma isl_eliminate: "isl (eliminate h i pm) = isl (eliminate h i pm2)"
  by (simp add: eliminate_def Let_def split: option.splits sum.splits)

lemma eliminate_all_Inr:
  "eliminate_all h xs pm = Inr pm' \<Longrightarrow> pm' = pm - (\<Union>i \<in> set xs. spec_discards h i)"
proof (induction xs arbitrary: pm)
  case Nil
  then show ?case by simp
next
  case (Cons x xs)
  from Cons.prems obtain pm1 where e: "eliminate h x pm = Inr pm1"
    and r: "eliminate_all h xs pm1 = Inr pm'"
    by (auto split: sum.splits)
  from eliminate_Inr [OF e] Cons.IH [OF r] show ?case by auto
qed

lemma isl_eliminate_all:
  "isl (eliminate_all h xs pm) \<longleftrightarrow> (\<exists>i \<in> set xs. isl (eliminate h i {}))"
proof (induction xs arbitrary: pm)
  case Nil
  then show ?case by simp
next
  case (Cons x xs)
  show ?case
  proof (cases "eliminate h x pm")
    case (Inl e)
    then have "isl (eliminate h x {})" using isl_eliminate [of h x pm "{}"] by simp
    with Inl show ?thesis by simp
  next
    case (Inr pm1)
    then have "\<not> isl (eliminate h x {})" using isl_eliminate [of h x pm "{}"] by simp
    with Inr Cons.IH [of pm1] show ?thesis by simp
  qed
qed

lemma eliminate_returns:
  assumes "\<And>m f. mother (h i) = Some m \<Longrightarrow> father (h i) = Some f \<Longrightarrow>
             (\<not> affected (h f) \<longrightarrow> is_carrier h f \<noteq> Inl AttributeError)
           \<and> (\<not> affected (h m) \<longrightarrow> is_carrier h m \<noteq> Inl AttributeError)"
  shows "\<not> isl (eliminate h i pm)"
proof (cases "father (h i)")
  case None
  then show ?thesis by (simp add: eliminate_def)
next
  case f: (Some f)
  show ?thesis
  proof (cases "mother (h i)")
    case None
    with f show ?thesis by (simp add: eliminate_def)
  next
    case m: (Some m)
    from assms [OF m f]
    have cf: "\<not> affected (h f) \<Longrightarrow> \<exists>c. is_carrier h f = Inr c"
      and cm: "\<not> affected (h m) \<Longrightarrow> \<exists>c. is_carrier h m = Inr c"
      by (cases "is_carrier h f"; cases "is_carrier h m"; simp add: error_is_AttributeError)+
    have uf: "\<exists>b. unaffected_and_not_carrier h f = Inr b"
      using cf by (auto simp: unaffected_and_not_carrier_def)
    have um: "\<exists>b. unaffected_and_not_carrier h m = Inr b"
      using cm by (auto simp: unaffected_and_not_carrier_def)
    have r: "\<exists>b. rules_out_recessive h f m = Inr b"
      using uf um by (auto simp: rules_out_recessive_def split: bool.splits)
    have x: "\<exists>b. rules_out_x_recessive h i m = Inr b"
      using cm by (auto simp: rules_out_x_recessive_def)
    from r x f m show ?thesis
      by (auto simp: eliminate_def Let_def)
  qed
qed

lemma eliminate_all_returns:
  assumes "\<forall>i \<in> set xs. \<not> isl (eliminate h i {})"
  shows "eliminate_all h xs pm = Inr (pm - (\<Union>i \<in> set xs. spec_discards h i))"
proof -
  from assms have "\<not> isl (eliminate_all h xs pm)"
    by (simp add: isl_eliminate_all)
  then obtain pm' where r: "eliminate_all h xs pm = Inr pm'"
    by (cases "eliminate_all h xs pm") auto
  from eliminate_all_Inr [OF r] r show ?thesis by simp
qed

text \<open>
  The loop of \<open>find_mode_of_inheritance\<close> either raises or ends with the initial set of
  four less the three specified discards of every affected individual of the collection
  that has both parents recorded (an affected individual lacking a parent has no
  discards). Where the \<open>is_carrier\<close> calls of the loop return, it ends with that set, and
  the method returns it, or its element when it has exactly one.
\<close>

lemma candidate_modes_when_carrier_calls_return:
  "(candidate_modes h p = Inl AttributeError
      \<or> candidate_modes h p = Inr (spec_candidate_modes h p))
   \<and> (carrier_calls_return h p \<longrightarrow>
        candidate_modes h p = Inr (spec_candidate_modes h p)
      \<and> find_mode_of_inheritance h p = Inr (return_modes (spec_candidate_modes h p)))"
proof (intro conjI impI)
  show "candidate_modes h p = Inl AttributeError
      \<or> candidate_modes h p = Inr (spec_candidate_modes h p)"
  proof (cases "candidate_modes h p")
    case (Inl e)
    then show ?thesis by (simp add: error_is_AttributeError)
  next
    case (Inr S)
    then have "S = spec_candidate_modes h p"
      unfolding candidate_modes_def spec_candidate_modes_def find_affected_def
      by (rule eliminate_all_Inr)
    with Inr show ?thesis by simp
  qed
next
  assume c: "carrier_calls_return h p"
  have "\<forall>i \<in> set (find_affected h p). \<not> isl (eliminate h i {})"
  proof
    fix i assume "i \<in> set (find_affected h p)"
    then have i: "i \<in> set (individuals p)" and a: "affected (h i)"
      by (simp_all add: find_affected_def)
    show "\<not> isl (eliminate h i {})"
      using c i a by (intro eliminate_returns) (simp add: carrier_calls_return_def)
  qed
  then show r: "candidate_modes h p = Inr (spec_candidate_modes h p)"
    unfolding candidate_modes_def spec_candidate_modes_def
    by (simp add: eliminate_all_returns find_affected_def)
  then show "find_mode_of_inheritance h p = Inr (return_modes (spec_candidate_modes h p))"
    by (simp add: find_mode_of_inheritance_def)
qed

lemma candidate_modes_when_carrier_calls_return_pedigree9:
  "carrier_calls_return pedigree9_heap pedigree9
   \<and> candidate_modes pedigree9_heap pedigree9 = Inr (spec_candidate_modes pedigree9_heap pedigree9)
   \<and> find_mode_of_inheritance pedigree9_heap pedigree9
       = Inr (return_modes (spec_candidate_modes pedigree9_heap pedigree9))
   \<and> spec_candidate_modes pedigree9_heap pedigree9 = {''Autosomal Recessive'', ''X-Linked Recessive''}"
proof -
  have c: "carrier_calls_return pedigree9_heap pedigree9"
    by (simp add: carrier_calls_return_def pedigree9_def pedigree9_heap_values
          is_carrier_def any_affected_sibling_def)
  have s: "spec_candidate_modes pedigree9_heap pedigree9 = {''Autosomal Recessive'', ''X-Linked Recessive''}"
    by (simp add: spec_candidate_modes_def spec_discards_def pedigree9_def pedigree9_heap_values
          is_carrier_def any_affected_sibling_def initial_modes_def insert_Diff_if)
  from c s candidate_modes_when_carrier_calls_return [of pedigree9_heap pedigree9] show ?thesis
    by simp
qed

text \<open>
  C6. When the loop returns the set \<open>S\<close> on a pedigree, \<open>S\<close> lies within the initial four
  modes, and on every pedigree over the same objects whose collection leaves some
  individuals out the loop returns as well, with a set that contains \<open>S\<close>.
\<close>

theorem candidate_modes_monotone:
  assumes "candidate_modes h p = Inr S"
    and "set (individuals q) \<subseteq> set (individuals p)"
  shows "S \<subseteq> initial_modes \<and> (\<exists>S'. candidate_modes h q = Inr S' \<and> S \<subseteq> S')"
proof -
  let ?D = "\<lambda>r. \<Union>i \<in> set (find_affected h r). spec_discards h i"
  from assms(1) have S: "S = initial_modes - ?D p"
    unfolding candidate_modes_def by (rule eliminate_all_Inr)
  from assms(1) have "\<not> isl (eliminate_all h (find_affected h p) initial_modes)"
    by (simp add: candidate_modes_def)
  then have np: "\<forall>i \<in> set (find_affected h p). \<not> isl (eliminate h i {})"
    by (simp add: isl_eliminate_all)
  from assms(2) have sub: "set (find_affected h q) \<subseteq> set (find_affected h p)"
    by (auto simp: find_affected_def)
  with np have "\<forall>i \<in> set (find_affected h q). \<not> isl (eliminate h i {})"
    by blast
  then have q: "candidate_modes h q = Inr (initial_modes - ?D q)"
    unfolding candidate_modes_def by (rule eliminate_all_returns)
  from sub have "?D q \<subseteq> ?D p" by blast
  with S have "S \<subseteq> initial_modes - ?D q" by blast
  with q S show ?thesis by blast
qed

theorem candidate_modes_monotone_witness:
  "candidate_modes pedigree9_heap pedigree9 = Inr {''Autosomal Recessive'', ''X-Linked Recessive''}
   \<and> set (individuals \<lparr>individuals = [1, 2, 3, 4, 6, 7, 8, 9, 10, 11, 12]\<rparr>) \<subseteq> set (individuals pedigree9)
   \<and> {''Autosomal Recessive'', ''X-Linked Recessive''} \<subseteq> initial_modes
   \<and> (\<exists>S'. candidate_modes pedigree9_heap \<lparr>individuals = [1, 2, 3, 4, 6, 7, 8, 9, 10, 11, 12]\<rparr> = Inr S'
          \<and> {''Autosomal Recessive'', ''X-Linked Recessive''} \<subseteq> S')"
proof -
  have a: "candidate_modes pedigree9_heap pedigree9 = Inr {''Autosomal Recessive'', ''X-Linked Recessive''}"
    by (simp add: mode_defs pedigree9_def pedigree9_heap_values)
  have b: "set (individuals \<lparr>individuals = [1, 2, 3, 4, 6, 7, 8, 9, 10, 11, 12]\<rparr>) \<subseteq> set (individuals pedigree9)"
    by (simp add: pedigree9_def)
  from a b candidate_modes_monotone [OF a b] show ?thesis by simp
qed

lemma card_initial_modes: "card initial_modes = 4"
  by (simp add: initial_modes_def)

text \<open>
  C10. If every affected individual of the collection lacks a recorded mother or a
  recorded father, nothing is discarded and the method returns the set of all four modes.
\<close>

theorem find_mode_of_inheritance_no_eliminations:
  assumes "\<forall>i \<in> set (individuals p). affected (h i) \<longrightarrow> mother (h i) = None \<or> father (h i) = None"
  shows "find_mode_of_inheritance h p = Inr (Modes initial_modes)"
proof -
  have e: "eliminate_all h xs pm = Inr pm"
    if "\<forall>i \<in> set xs. mother (h i) = None \<or> father (h i) = None" for xs pm
    using that by (induction xs) (auto simp: eliminate_def split: option.splits)
  have "\<forall>i \<in> set (find_affected h p). mother (h i) = None \<or> father (h i) = None"
    using assms by (simp add: find_affected_def)
  then have "candidate_modes h p = Inr initial_modes"
    unfolding candidate_modes_def by (rule e)
  then show ?thesis
    by (simp add: find_mode_of_inheritance_def return_modes_def card_initial_modes)
qed

theorem find_mode_of_inheritance_no_eliminations_witness:
  "affected (pedigree9_heap 8) \<and> father (pedigree9_heap 8) = None
   \<and> affected (pedigree9_heap 11) \<and> mother (pedigree9_heap 11) = None
   \<and> find_mode_of_inheritance pedigree9_heap \<lparr>individuals = [1, 2, 8, 9, 11]\<rparr> = Inr (Modes initial_modes)"
proof -
  have a: "\<forall>i \<in> set (individuals \<lparr>individuals = [1, 2, 8, 9, 11]\<rparr>).
      affected (pedigree9_heap i) \<longrightarrow> mother (pedigree9_heap i) = None \<or> father (pedigree9_heap i) = None"
    by (simp add: pedigree9_heap_values)
  from find_mode_of_inheritance_no_eliminations [OF a] show ?thesis
    by (simp add: pedigree9_heap_values)
qed

section \<open>Linking parents and children\<close>

text \<open>
  C9. With a tag other than 'M' and 'F', \<open>add_parent_child_relationship\<close> returns the
  store it was given: no attribute of any object changes and nothing is raised.
\<close>

theorem add_parent_child_relationship_other_tag:
  assumes "sx \<noteq> ''M''" and "sx \<noteq> ''F''"
  shows "add_parent_child_relationship h self parent sx = h"
  using assms by (simp add: add_parent_child_relationship_def)

theorem add_parent_child_relationship_other_tag_witness:
  "''m'' \<noteq> ''M'' \<and> ''m'' \<noteq> ''F''
   \<and> add_parent_child_relationship pedigree9_objects 3 1 ''m'' = pedigree9_objects"
  using add_parent_child_relationship_other_tag [of "''m''" pedigree9_objects 3 1] by simp

lemma parent_child_inv_link:
  assumes "parent_child_inv h"
  shows "parent_child_inv (add_parent_child_relationship h self parent sx)"
  using assms
  by (auto simp: parent_child_inv_def add_parent_child_relationship_def Let_def)

lemma parent_child_inv_new:
  assumes "parent_child_inv h" and "unreferenced h r"
  shows "parent_child_inv (h(r := Individual_init id_number sx aff None None chn))"
  using assms
  by (auto simp: parent_child_inv_def unreferenced_def Individual_init_def)

lemma built_parent_child_inv: "built h \<Longrightarrow> parent_child_inv h"
proof (induction rule: built.induct)
  case built_empty
  show ?case by (simp add: parent_child_inv_def build_defs)
next
  case (built_new h r id_number sx aff chn)
  from built_new.IH built_new.hyps(2) show ?case by (rule parent_child_inv_new)
next
  case (built_link h self parent sx)
  from built_link.IH show ?case by (rule parent_child_inv_link)
qed

lemma link_sets_parent:
  "father (add_parent_child_relationship h self parent ''M'' self) = Some parent"
  "mother (add_parent_child_relationship h self parent ''F'' self) = Some parent"
  by (simp_all add: add_parent_child_relationship_def Let_def)

lemma link_appends_once:
  assumes "sx = ''M'' \<or> sx = ''F''"
  shows "children (add_parent_child_relationship h self parent sx parent) = children (h parent) @ [self]"
  using assms by (auto simp: add_parent_child_relationship_def Let_def)

text \<open>
  C7 fails as stated: the constructor stores a \<open>mother\<close> argument without touching the
  mother's \<open>children\<close>.
\<close>

theorem constructor_link_not_in_children:
  "mother (constructor_link_heap 2) = Some 1 \<and> 2 \<notin> set (children (constructor_link_heap 1))"
  by (simp add: constructor_link_heap_def build_defs)

text \<open>
  C7, amended. In every object graph built from individuals constructed without the
  \<open>mother\<close> and \<open>father\<close> arguments and linked by \<open>add_parent_child_relationship\<close>, every
  individual with a recorded mother occurs in her \<open>children\<close>, and likewise for the
  father; a further call with the tag 'M' or 'F' keeps this, records the parent and adds
  exactly one occurrence of the child to the parent's \<open>children\<close>.
\<close>

theorem parent_child_links_by_construction:
  assumes "built h" and "sx = ''M'' \<or> sx = ''F''"
  shows "parent_child_inv h
       \<and> parent_child_inv (add_parent_child_relationship h self parent sx)
       \<and> (if sx = ''M'' then father (add_parent_child_relationship h self parent sx self)
          else mother (add_parent_child_relationship h self parent sx self)) = Some parent
       \<and> count_list (children (add_parent_child_relationship h self parent sx parent)) self
           = Suc (count_list (children (h parent)) self)"
proof -
  from assms(1) have "parent_child_inv h" by (rule built_parent_child_inv)
  moreover from this have "parent_child_inv (add_parent_child_relationship h self parent sx)"
    by (rule parent_child_inv_link)
  moreover from assms(2) have "(if sx = ''M'' then father (add_parent_child_relationship h self parent sx self)
          else mother (add_parent_child_relationship h self parent sx self)) = Some parent"
    by (auto simp: link_sets_parent)
  moreover have "count_list (children (add_parent_child_relationship h self parent sx parent)) self
           = Suc (count_list (children (h parent)) self)"
    by (simp add: link_appends_once [OF assms(2)])
  ultimately show ?thesis by simp
qed

theorem parent_child_links_by_construction_witness:
  "built two_objects \<and> (''F'' = ''M'' \<or> ''F'' = ''F'')
   \<and> parent_child_inv two_objects
   \<and> parent_child_inv (add_parent_child_relationship two_objects 2 1 ''F'')
   \<and> mother (add_parent_child_relationship two_objects 2 1 ''F'' 2) = Some 1
   \<and> count_list (children (add_parent_child_relationship two_objects 2 1 ''F'' 1)) 2
       = Suc (count_list (children (two_objects 1)) 2)"
proof -
  have u1: "unreferenced empty_heap 1"
    by (simp add: unreferenced_def build_defs)
  have u2: "unreferenced (empty_heap(1 := Individual_init ''P'' ''F'' False None None None)) 2"
    by (simp add: unreferenced_def build_defs)
  have b: "built two_objects"
    unfolding two_objects_def
    by (intro built_new built_empty u1 u2)
  have t: "''F'' = ''M'' \<or> ''F'' = ''F''" by simp
  from b parent_child_links_by_construction [OF b t, of 2 1] show ?thesis by simp
qed

end
